theory Spec2Isabelle
  imports Complex_Main "HOL-Library.Log_Nat"
begin

section \<open>Numbers, instants and results\<close>

text \<open>
  The reservation engine of the booking API is embedded function by function.
  Instants are the milliseconds of \<open>Date\<close> values, and the clock (\<open>new Date()\<close>) is an
  explicit argument \<open>now\<close>. String-valued fields (status, payment status, rate type,
  policy name) stay strings, because the source compares them with string literals and
  the controllers write values outside the schemas' enums.

  A JavaScript number is an IEEE 754 double. It is read as the rational it denotes, and
  every arithmetic operation of the source rounds its exact result to the nearest
  double, ties to even (\<open>fl\<close>). Differences of instants, \<open>Math.ceil\<close>, \<open>Math.round\<close>,
  \<open>Math.max\<close> and comparisons are exact. Numbers beyond the normal range of doubles
  (overflow to \<open>Infinity\<close>, subnormal numbers) are not distinguished.
\<close>

type_synonym instant = int

definition pow2 :: "int \<Rightarrow> rat" where
  "pow2 e = (if e \<ge> 0 then 2 ^ nat e else 1 / 2 ^ nat (- e))"

text \<open>The nearest integer, a tie going to the even neighbour.\<close>

definition roundHalfEven :: "rat \<Rightarrow> int" where
  "roundHalfEven m =
    (let f = \<lfloor>m\<rfloor>; d = m - of_int f
     in if d < 1 / 2 then f else if d > 1 / 2 then f + 1 else if even f then f else f + 1)"

text \<open>The binary exponent \<open>e\<close> of a number other than 0: \<open>2 ^ e \<le> |x| < 2 ^ (e + 1)\<close>.\<close>

definition exponentOf :: "rat \<Rightarrow> int" where
  "exponentOf x =
    (let (p, q) = quotient_of \<bar>x\<bar>; e = bitlen p - bitlen q
     in if pow2 e \<le> \<bar>x\<bar> then e else e - 1)"

text \<open>Rounding to a significand of 53 bits.\<close>

definition fl :: "rat \<Rightarrow> rat" where
  "fl x = (if x = 0 then 0
           else let u = pow2 (exponentOf x - 52) in of_int (roundHalfEven (x / u)) * u)"

definition dadd :: "rat \<Rightarrow> rat \<Rightarrow> rat" where
  "dadd x y = fl (x + y)"

definition dsub :: "rat \<Rightarrow> rat \<Rightarrow> rat" where
  "dsub x y = fl (x - y)"

definition dmul :: "rat \<Rightarrow> rat \<Rightarrow> rat" where
  "dmul x y = fl (x * y)"

definition ddiv :: "rat \<Rightarrow> rat \<Rightarrow> rat" where
  "ddiv x y = fl (x / y)"

text \<open>\<open>Math.round(x * 100) / 100\<close>; \<open>Math.round\<close> rounds halves upwards.\<close>

definition round2 :: "rat \<Rightarrow> rat" where
  "round2 x = ddiv (of_int \<lfloor>dmul x 100 + 1 / 2\<rfloor>) 100"

text \<open>
  An exception thrown by a model method: \<open>throw new Error(msg)\<close>, or the validation
  error of \<open>save()\<close>.
\<close>

datatype error = Error string | ValidationError

text \<open>An error response of a controller: the HTTP status code and the message.\<close>

datatype http_error = HttpError nat string

section \<open>The hiring model (models/Hiring.js)\<close>

text \<open>
  One entry of \<open>payments\<close>. The field \<open>status\<close> of an entry is called
  \<open>entryStatus\<close> here, since the hiring has a \<open>status\<close> of its own, and its
  payment method \<open>paymentMethod\<close>; the randomly generated transaction id is left out.
\<close>

record payment =
  amount :: rat
  date :: instant
  paymentMethod :: string
  entryStatus :: string

text \<open>
  The fields of the hiring schema that the pricing, payment and cancellation methods
  read or write; \<open>hid\<close> stands for \<open>_id\<close>, and an additional charge is the
  pair of its description and its amount.
\<close>

record hiring =
  hid :: nat
  status :: string
  startDate :: instant
  endDate :: instant
  isRoundTrip :: bool
  estimatedDistance :: rat
  baseRate :: rat
  rateType :: string
  additionalCharges :: "(string \<times> rat) list"
  driverAllowance :: rat
  overtimeRate :: rat
  totalCost :: rat
  deposit :: rat
  paymentStatus :: string
  payments :: "payment list"
  bus :: nat
  cancellationPolicy :: string

text \<open>
  What \<open>save()\<close> checks of a hiring: the enums of the schema, on the document and on
  every ledger entry, and the description every additional charge must have. The
  required text fields of the schema (purpose, locations, user, passenger count) are
  never written by the methods below and are taken to be present in a stored hiring.
\<close>

definition validPayment :: "payment \<Rightarrow> bool" where
  "validPayment p =
    (paymentMethod p \<in> set [''Credit Card'', ''Debit Card'', ''Bank Transfer'', ''Cash'',
                               ''Mobile Money'', ''Other'']
     \<and> entryStatus p \<in> set [''Pending'', ''Completed'', ''Failed'', ''Refunded''])"

definition validHiring :: "hiring \<Rightarrow> bool" where
  "validHiring h =
    (status h \<in> set [''Pending'', ''Confirmed'', ''Cancelled'', ''In Progress'',
                       ''Completed'', ''Refunded'']
     \<and> rateType h \<in> set [''Per Day'', ''Per Hour'', ''Per Kilometer'', ''Fixed'']
     \<and> paymentStatus h \<in> set [''Pending'', ''Partially Paid'', ''Paid'', ''Refunded'',
                                 ''Partially Refunded'']
     \<and> list_all validPayment (payments h)
     \<and> list_all (\<lambda>charge. fst charge \<noteq> []) (additionalCharges h))"

text \<open>
  \<open>calculateTotalCost\<close>: the \<open>switch\<close> on \<open>rateType\<close> with its
  \<open>default\<close> branch, the driver allowance, overtime beyond eight hours per started
  day, the additional charges, the round-trip discount and the final rounding. The
  method stores the result in \<open>totalCost\<close> and returns it.
\<close>

definition baseCost :: "hiring \<Rightarrow> rat" where
  "baseCost h =
    (let durationInMs = (of_int (endDate h - startDate h) :: rat);
         durationInHours = ddiv durationInMs (1000 * 60 * 60);
         durationInDays = ddiv durationInHours 24
     in if rateType h = ''Per Day'' then dmul (baseRate h) (of_int \<lceil>durationInDays\<rceil>)
        else if rateType h = ''Per Hour'' then dmul (baseRate h) (of_int \<lceil>durationInHours\<rceil>)
        else if rateType h = ''Per Kilometer'' then dmul (baseRate h) (estimatedDistance h)
        else if rateType h = ''Fixed'' then baseRate h
        else dmul (baseRate h) (of_int \<lceil>durationInDays\<rceil>))"

definition calculateTotalCost :: "hiring \<Rightarrow> rat \<times> hiring" where
  "calculateTotalCost h =
    (let durationInMs = (of_int (endDate h - startDate h) :: rat);
         durationInHours = ddiv durationInMs (1000 * 60 * 60);
         durationInDays = ddiv durationInHours 24;
         c0 = baseCost h;
         c1 = (if driverAllowance h > 0 then dadd c0 (driverAllowance h) else c0);
         standardHoursPerDay = 8;
         totalStandardHours = dmul (of_int \<lceil>durationInDays\<rceil>) standardHoursPerDay;
         c2 = (if durationInHours > totalStandardHours \<and> overtimeRate h > 0
               then dadd c1 (dmul (dsub durationInHours totalStandardHours) (overtimeRate h))
               else c1);
         c3 = foldl (\<lambda>total charge. dadd total (snd charge)) c2 (additionalCharges h);
         c4 = (if isRoundTrip h then dmul c3 (fl (9 / 10)) else c3);
         result = round2 c4
     in (result, h\<lparr>totalCost := result\<rparr>))"

text \<open>
  The tier tables inside \<open>Hiring.handleCancellation\<close>, by policy name and days to
  the start; a policy name other than the three listed leaves the percentage at 0.
\<close>

definition hiringRefundPercentage :: "string \<Rightarrow> rat \<Rightarrow> rat" where
  "hiringRefundPercentage policy daysToDeparture =
    (if policy = ''Standard'' then
       (if daysToDeparture > 14 then fl (9 / 10)
        else if daysToDeparture > 7 then 3 / 4
        else if daysToDeparture > 3 then 1 / 2
        else if daysToDeparture > 1 then 1 / 4
        else 0)
     else if policy = ''Flexible'' then
       (if daysToDeparture > 7 then 1
        else if daysToDeparture > 3 then fl (4 / 5)
        else if daysToDeparture > 1 then 1 / 2
        else 0)
     else if policy = ''Strict'' then
       (if daysToDeparture > 30 then 3 / 4
        else if daysToDeparture > 14 then 1 / 2
        else if daysToDeparture > 7 then 1 / 4
        else 0)
     else 0)"

text \<open>The fold shared by the virtual \<open>totalPaid\<close>, \<open>processPayment\<close> and
  \<open>handleCancellation\<close>: \<open>payments.reduce\<close> over the entries with status Completed.\<close>

definition completedSum :: "payment list \<Rightarrow> rat" where
  "completedSum ps =
    foldl (\<lambda>sum p. if entryStatus p = ''Completed'' then dadd sum (amount p) else sum) 0 ps"

definition totalPaid :: "hiring \<Rightarrow> rat" where
  "totalPaid h = completedSum (payments h)"

definition remainingBalance :: "hiring \<Rightarrow> rat" where
  "remainingBalance h = max 0 (dsub (totalCost h) (totalPaid h))"

definition daysToStart :: "hiring \<Rightarrow> instant \<Rightarrow> rat" where
  "daysToStart h now = ddiv (of_int (startDate h - now)) (1000 * 60 * 60 * 24)"

text \<open>
  \<open>handleCancellation\<close> returns the refund amount and percentage and leaves the
  refund entry and the payment status in the hiring object; it does not save. The
  free-text note it appends is not modelled.
\<close>

record cancellationResult =
  refundAmount :: rat
  refundPercentage :: rat

definition handleCancellation :: "hiring \<Rightarrow> instant \<Rightarrow> cancellationResult \<times> hiring" where
  "handleCancellation h now =
    (let pct = hiringRefundPercentage (cancellationPolicy h) (daysToStart h now);
         paid = completedSum (payments h);
         refund = round2 (dmul paid pct);
         h' = (if refund > 0
               then h\<lparr>payments := payments h @
                         [\<lparr>amount = - refund, date = now, paymentMethod = ''Refund'',
                           entryStatus = ''Completed''\<rparr>],
                       paymentStatus := (if refund \<ge> paid then ''Refunded''
                                         else ''Partially Refunded'')\<rparr>
               else h)
     in (\<lparr>refundAmount = refund, refundPercentage = pct\<rparr>, h'))"

text \<open>
  \<open>processPayment\<close>: rejects a non-positive amount, appends a Completed entry,
  derives the payment status from the paid total, confirms a pending hiring whose
  paid total reaches the deposit, and saves. An empty method name becomes \<open>Other\<close>.
\<close>

definition processPayment :: "hiring \<Rightarrow> rat \<Rightarrow> string \<Rightarrow> instant \<Rightarrow> error + hiring" where
  "processPayment h amt meth now =
    (if amt \<le> 0 then Inl (Error ''Invalid payment amount'')
     else
       let entry = \<lparr>amount = amt, date = now,
                    paymentMethod = (if meth = [] then ''Other'' else meth),
                    entryStatus = ''Completed''\<rparr>;
           h1 = h\<lparr>payments := payments h @ [entry]\<rparr>;
           paid = completedSum (payments h1);
           h2 = h1\<lparr>paymentStatus :=
                     (if paid \<ge> totalCost h1 then ''Paid''
                      else if paid > 0 then ''Partially Paid''
                      else ''Pending'')\<rparr>;
           h3 = (if paid \<ge> deposit h2 \<and> status h2 = ''Pending''
                 then h2\<lparr>status := ''Confirmed''\<rparr> else h2)
       in if validHiring h3 then Inr h3 else Inl ValidationError)"

text \<open>
  \<open>Hiring.updateStatus\<close>: any status of the list is accepted from any status; the
  method saves at the end.
\<close>

definition hiringUpdateStatus :: "hiring \<Rightarrow> string \<Rightarrow> instant \<Rightarrow> error + hiring" where
  "hiringUpdateStatus h newStatus now =
    (if newStatus \<notin> set [''Pending'', ''Confirmed'', ''Cancelled'', ''In Progress'',
                           ''Completed'', ''Refunded'']
     then Inl (Error (''Invalid status: '' @ newStatus))
     else
       let h1 = h\<lparr>status := newStatus\<rparr>;
           h2 = (if newStatus = ''Cancelled'' \<or> newStatus = ''Refunded''
                 then snd (handleCancellation h1 now) else h1)
       in if validHiring h2 then Inr h2 else Inl ValidationError)"

section \<open>The route and booking models (models/Route.js, models/Booking.js)\<close>

record route =
  routeId :: nat
  baseFare :: rat
  peakTimeMultiplier :: rat
  weekendMultiplier :: rat
  holidayMultiplier :: rat
  seasonalMultiplier :: rat
  childrenDiscount :: rat
  seniorDiscount :: rat

record fareOptions =
  isChild :: bool
  isSenior :: bool
  isPeakTime :: bool
  isWeekend :: bool
  isHoliday :: bool
  isSeasonal :: bool

text \<open>
  \<open>Route.calculateFare\<close> returns an object; its fields \<open>total\<close> and \<open>base\<close>
  are kept. The options \<open>stopPoint\<close> and \<open>date\<close> are left out: the booking
  model passes neither.
\<close>

record fareObject =
  total :: rat
  base :: rat

definition calculateFare :: "route \<Rightarrow> fareOptions \<Rightarrow> fareObject" where
  "calculateFare r opts =
    (let f0 = baseFare r;
         f1 = (if isPeakTime opts then dmul f0 (peakTimeMultiplier r) else f0);
         f2 = (if isWeekend opts then dmul f1 (weekendMultiplier r) else f1);
         f3 = (if isHoliday opts then dmul f2 (holidayMultiplier r) else f2);
         f4 = (if isSeasonal opts then dmul f3 (seasonalMultiplier r) else f3);
         f5 = (if isChild opts then dmul f4 (dsub 1 (childrenDiscount r)) else f4);
         f6 = (if isSenior opts then dmul f5 (dsub 1 (seniorDiscount r)) else f5)
     in \<lparr>total = round2 f6, base = baseFare r\<rparr>)"

text \<open>A passenger as stored, the schema's defaults applied; \<open>age\<close> may be missing.\<close>

record passenger =
  name :: string
  age :: "nat option"
  gender :: string
  passengerType :: string
  seatNumber :: string

text \<open>
  The booking document. Fields whose names the hiring already uses carry the prefix
  \<open>booking\<close>: \<open>bookingStatus\<close> is \<open>status\<close>, \<open>bookingBus\<close> is \<open>bus\<close>,
  \<open>bookingPaymentStatus\<close> is \<open>paymentStatus\<close>, \<open>bookingId\<close> is \<open>_id\<close>.
  \<open>discountApplied\<close> is \<open>additionalInformation.discountApplied\<close> and
  \<open>transactionRefundAmount\<close> is \<open>transaction.refundAmount\<close>. The schema has no
  \<open>payments\<close> path: a booking loaded from the store carries no ledger.
\<close>

record booking =
  bookingId :: nat
  bookingType :: string
  bookingStatus :: string
  passengers :: "passenger list"
  bookingRoute :: nat
  bookingBus :: nat
  departureDate :: instant
  returnDate :: "instant option"
  totalFare :: rat
  bookingPaymentStatus :: string
  discountApplied :: "rat option"
  transactionRefundAmount :: "rat option"

text \<open>
  What \<open>save()\<close> checks of a booking: the enums and the required fields of the
  schema. The validator of \<open>returnDate\<close> runs only on a return date that is present
  and then accepts it, so it rejects nothing.
\<close>

definition validPassenger :: "passenger \<Rightarrow> bool" where
  "validPassenger p =
    (name p \<noteq> [] \<and> age p \<noteq> None
     \<and> gender p \<in> set [''Male'', ''Female'', ''Other'', ''Prefer not to say'']
     \<and> seatNumber p \<noteq> []
     \<and> passengerType p \<in> set [''Adult'', ''Child'', ''Senior''])"

definition validBooking :: "booking \<Rightarrow> bool" where
  "validBooking b =
    (bookingType b \<in> set [''One-Way'', ''Round-Trip'']
     \<and> bookingStatus b \<in> set [''Pending'', ''Confirmed'', ''Cancelled'', ''Completed'',
                                 ''No-Show'', ''Refunded'']
     \<and> bookingPaymentStatus b \<in> set [''Pending'', ''Paid'', ''Failed'', ''Refunded'',
                                        ''Partially Refunded'']
     \<and> list_all validPassenger (passengers b))"

definition hoursToDeparture :: "booking \<Rightarrow> instant \<Rightarrow> rat" where
  "hoursToDeparture b now = ddiv (of_int (departureDate b - now)) (1000 * 60 * 60)"

text \<open>The tier table inside \<open>Booking.handleCancellation\<close>, by hours to departure.\<close>

definition bookingRefundPercentage :: "rat \<Rightarrow> rat" where
  "bookingRefundPercentage hours =
    (if hours > 72 then 1
     else if hours > 48 then 3 / 4
     else if hours > 24 then 1 / 2
     else if hours > 12 then 1 / 4
     else 0)"

text \<open>
  \<open>Booking.handleCancellation\<close>: the refund is a fraction of the total fare, stored
  rounded in the transaction; the payment status follows the percentage. The returned
  amount is the unrounded one. The method does not save.
\<close>

definition bookingHandleCancellation ::
  "booking \<Rightarrow> instant \<Rightarrow> cancellationResult \<times> booking" where
  "bookingHandleCancellation b now =
    (let pct = bookingRefundPercentage (hoursToDeparture b now);
         refund = dmul (totalFare b) pct;
         b1 = b\<lparr>transactionRefundAmount := Some (round2 refund)\<rparr>;
         b2 = (if pct = 1 then b1\<lparr>bookingPaymentStatus := ''Refunded''\<rparr>
               else if pct > 0 then b1\<lparr>bookingPaymentStatus := ''Partially Refunded''\<rparr>
               else b1)
     in (\<lparr>refundAmount = refund, refundPercentage = pct\<rparr>, b2))"

text \<open>
  \<open>Booking.updateStatus\<close>: any status of the list is accepted from any status; the
  method saves at the end.
\<close>

definition bookingUpdateStatus :: "booking \<Rightarrow> string \<Rightarrow> instant \<Rightarrow> error + booking" where
  "bookingUpdateStatus b newStatus now =
    (if newStatus \<notin> set [''Pending'', ''Confirmed'', ''Cancelled'', ''Completed'',
                           ''No-Show'', ''Refunded'']
     then Inl (Error (''Invalid status: '' @ newStatus))
     else
       let b1 = b\<lparr>bookingStatus := newStatus\<rparr>;
           b2 = (if newStatus = ''Cancelled'' \<or> newStatus = ''Refunded''
                 then snd (bookingHandleCancellation b1 now) else b1)
       in if validBooking b2 then Inr b2 else Inl ValidationError)"

section \<open>The record store\<close>

text \<open>
  The collections the controllers query. \<open>dailyRate\<close> and \<open>perKilometer\<close> are the
  optional \<open>hiringRates\<close> of a bus.
\<close>

record busDoc =
  busId :: nat
  busStatus :: string
  dailyRate :: "rat option"
  perKilometer :: "rat option"

record store =
  buses :: "busDoc list"
  routes :: "route list"
  bookings :: "booking list"
  hirings :: "hiring list"

definition findBus :: "store \<Rightarrow> nat \<Rightarrow> busDoc option" where
  "findBus st i = find (\<lambda>b. busId b = i) (buses st)"

definition findRoute :: "store \<Rightarrow> nat \<Rightarrow> route option" where
  "findRoute st i = find (\<lambda>r. routeId r = i) (routes st)"

text \<open>A range condition \<open>{ $gte: lo, $lte: hi }\<close> on a date that may be absent.\<close>

definition inRange :: "instant \<Rightarrow> instant \<Rightarrow> instant \<Rightarrow> bool" where
  "inRange lo hi d = (lo \<le> d \<and> d \<le> hi)"

definition optInRange :: "instant \<Rightarrow> instant \<Rightarrow> instant option \<Rightarrow> bool" where
  "optInRange lo hi d = (case d of None \<Rightarrow> False | Some x \<Rightarrow> inRange lo hi x)"

section \<open>Availability (Hiring.checkBusAvailability)\<close>

text \<open>
  The \<open>$or\<close> of the hiring query in \<open>checkBusAvailability\<close>: the existing hiring
  \<open>(s1, e1)\<close> starts or ends inside the requested period \<open>(s2, e2)\<close>.
\<close>

definition availabilityWindowMatch :: "instant \<Rightarrow> instant \<Rightarrow> instant \<Rightarrow> instant \<Rightarrow> bool" where
  "availabilityWindowMatch s1 e1 s2 e2 = (inRange s2 e2 s1 \<or> inRange s2 e2 e1)"

datatype availability =
  Available nat
  | BusNotFound
  | BusNotActive string
  | AlreadyBooked "nat list"
  | AlreadyHired "nat list"

definition conflictingBookings :: "store \<Rightarrow> hiring \<Rightarrow> booking list" where
  "conflictingBookings st h =
    filter (\<lambda>b. bookingBus b = bus h
              \<and> (inRange (startDate h) (endDate h) (departureDate b)
                 \<or> optInRange (startDate h) (endDate h) (returnDate b))
              \<and> bookingStatus b \<in> set [''Confirmed'', ''Pending''])
           (bookings st)"

definition conflictingHirings :: "store \<Rightarrow> hiring \<Rightarrow> hiring list" where
  "conflictingHirings st h =
    filter (\<lambda>g. bus g = bus h
              \<and> hid g \<noteq> hid h
              \<and> availabilityWindowMatch (startDate g) (endDate g) (startDate h) (endDate h)
              \<and> status g \<in> set [''Confirmed'', ''Pending'', ''In Progress''])
           (hirings st)"

definition checkBusAvailability :: "store \<Rightarrow> hiring \<Rightarrow> availability" where
  "checkBusAvailability st h =
    (case findBus st (bus h) of
       None \<Rightarrow> BusNotFound
     | Some b \<Rightarrow>
         if busStatus b \<noteq> ''Active'' then BusNotActive (busStatus b)
         else if conflictingBookings st h \<noteq> []
           then AlreadyBooked (map bookingId (conflictingBookings st h))
         else if conflictingHirings st h \<noteq> []
           then AlreadyHired (map hid (conflictingHirings st h))
         else Available (busId b))"

section \<open>The hiring controller (controllers/hiringController.js)\<close>

text \<open>
  The \<open>$or\<close> of the query in \<open>createHiring\<close>: the existing hiring \<open>(s1, e1)\<close>
  starts inside the requested period \<open>(s2, e2)\<close>, ends inside it, or surrounds it.
\<close>

definition createHiringWindowMatch :: "instant \<Rightarrow> instant \<Rightarrow> instant \<Rightarrow> instant \<Rightarrow> bool" where
  "createHiringWindowMatch s1 e1 s2 e2 =
    (inRange s2 e2 s1 \<or> inRange s2 e2 e1 \<or> (s1 \<le> s2 \<and> e1 \<ge> e2))"

definition existingHirings :: "store \<Rightarrow> nat \<Rightarrow> instant \<Rightarrow> instant \<Rightarrow> hiring list" where
  "existingHirings st b start end =
    filter (\<lambda>g. bus g = b
              \<and> createHiringWindowMatch (startDate g) (endDate g) start end
              \<and> status g \<in> set [''Pending'', ''Approved'', ''Confirmed''])
           (hirings st)"

record hiringRequest =
  reqBus :: nat
  reqStartDate :: instant
  reqEndDate :: instant
  reqEstimatedDistance :: "rat option"

text \<open>
  The document \<open>createHiring\<close> builds, by the paths of the hiring schema. The fare
  the controller computes is handed over under the names \<open>totalFare\<close> and
  \<open>durationDays\<close>, which are no paths of the schema and are dropped; \<open>totalCost\<close>
  and \<open>baseRate\<close>, which the schema requires, are never set, and the payment status
  is set to \<open>Unpaid\<close>.
\<close>

record createdHiring =
  newBus :: nat
  newStartDate :: instant
  newEndDate :: instant
  newEstimatedDistance :: "rat option"
  newTotalCost :: "rat option"
  newBaseRate :: "rat option"
  newStatus :: string
  newPaymentStatus :: string

definition validCreatedHiring :: "createdHiring \<Rightarrow> bool" where
  "validCreatedHiring d =
    (newStatus d \<in> set [''Pending'', ''Confirmed'', ''Cancelled'', ''In Progress'',
                          ''Completed'', ''Refunded'']
     \<and> newPaymentStatus d \<in> set [''Pending'', ''Partially Paid'', ''Paid'', ''Refunded'',
                                    ''Partially Refunded'']
     \<and> newEstimatedDistance d \<noteq> None
     \<and> newTotalCost d \<noteq> None
     \<and> newBaseRate d \<noteq> None)"

definition createHiring :: "store \<Rightarrow> hiringRequest \<Rightarrow> http_error + createdHiring" where
  "createHiring st req =
    (case findBus st (reqBus req) of
       None \<Rightarrow> Inl (HttpError 400 ''Bus not found'')
     | Some busData \<Rightarrow>
         if existingHirings st (reqBus req) (reqStartDate req) (reqEndDate req) \<noteq> []
         then Inl (HttpError 400 ''Bus is not available for the selected date range'')
         else
           let newHiring = \<lparr>newBus = reqBus req, newStartDate = reqStartDate req,
                             newEndDate = reqEndDate req,
                             newEstimatedDistance = reqEstimatedDistance req,
                             newTotalCost = None, newBaseRate = None,
                             newStatus = ''Pending'', newPaymentStatus = ''Unpaid''\<rparr>
           in if validCreatedHiring newHiring then Inr newHiring
              else Inl (HttpError 500 ''Server error while creating hiring request''))"

text \<open>
  \<open>updateHiringStatus\<close> on the hiring found by id (\<open>None\<close> when there is none). An
  empty status is as invalid as one outside the list. Where a message of this controller
  interpolates the current status, the model keeps the fixed part of the message. A
  document that \<open>save()\<close> refuses ends in the response 500.
\<close>

definition updateHiringStatus ::
  "hiring option \<Rightarrow> string \<Rightarrow> instant \<Rightarrow> http_error + hiring" where
  "updateHiringStatus found st now =
    (if st = [] \<or> st \<notin> set [''Pending'', ''Approved'', ''Confirmed'', ''In Progress'',
                               ''Completed'', ''Cancelled'', ''Rejected'']
     then Inl (HttpError 400 (''Status must be one of: Pending, Approved, Confirmed, ''
                                @ ''In Progress, Completed, Cancelled, Rejected''))
     else case found of
       None \<Rightarrow> Inl (HttpError 404 ''Hiring request not found'')
     | Some h \<Rightarrow>
         if status h \<in> set [''Cancelled'', ''Completed'', ''Rejected'']
         then Inl (HttpError 400 ''Cannot change status of a hiring request'')
         else
           let h1 = h\<lparr>status := st\<rparr>;
               h2 = (if st = ''Cancelled'' then snd (handleCancellation h1 now) else h1)
           in if validHiring h2 then Inr h2
              else Inl (HttpError 500 ''Server error while updating hiring status''))"

text \<open>
  \<open>cancelHiring\<close>: inside the last day only an admin may cancel; the refund is the
  one \<open>handleCancellation\<close> computes for either actor; the cancelled hiring is saved.
\<close>

definition cancelHiring ::
  "hiring option \<Rightarrow> bool \<Rightarrow> instant \<Rightarrow> http_error + (cancellationResult \<times> hiring)" where
  "cancelHiring found isAdmin now =
    (case found of
       None \<Rightarrow> Inl (HttpError 404 ''Hiring request not found'')
     | Some h \<Rightarrow>
         if status h = ''Cancelled''
         then Inl (HttpError 400 ''Hiring request is already cancelled'')
         else if status h \<in> set [''Completed'', ''Rejected'']
         then Inl (HttpError 400 ''Cannot cancel a completed or rejected hiring request'')
         else if daysToStart h now < 1 \<and> \<not> isAdmin
         then Inl (HttpError 400
                ''Hiring requests cannot be cancelled less than 24 hours before start date'')
         else
           let (res, h1) = handleCancellation h now;
               h2 = h1\<lparr>status := ''Cancelled''\<rparr>
           in if validHiring h2 then Inr (res, h2)
              else Inl (HttpError 500 ''Error processing cancellation''))"

section \<open>The booking controller (controllers/bookingController.js)\<close>

record bookingRequest =
  reqRoute :: nat
  reqBookingBus :: nat
  reqDepartureDate :: instant
  reqReturnDate :: "instant option"
  reqBookingType :: string
  reqPassengers :: "passenger list"
  reqPromoCode :: string

text \<open>
  The availability query of \<open>createBooking\<close>: live bookings of the bus whose departure
  or return instant equals the given one.
\<close>

definition busAvailability :: "store \<Rightarrow> nat \<Rightarrow> instant \<Rightarrow> booking list" where
  "busAvailability st b d =
    filter (\<lambda>x. bookingBus x = b
              \<and> (departureDate x = d \<or> returnDate x = Some d)
              \<and> bookingStatus x \<in> set [''Pending'', ''Confirmed''])
           (bookings st)"

text \<open>
  The fare computed in \<open>createBooking\<close> (and again in \<open>updateBooking\<close>); \<open>1.8\<close>
  and \<open>0.9\<close> are the doubles nearest to these decimals.
\<close>

definition createBookingFare :: "rat \<Rightarrow> nat \<Rightarrow> string \<Rightarrow> string \<Rightarrow> rat" where
  "createBookingFare fare n btype promo =
    (let t0 = dmul fare (of_nat n);
         t1 = (if btype = ''Round-Trip'' then dmul t0 (fl (18 / 10)) else t0);
         t2 = (if promo \<noteq> [] \<and> promo = ''WELCOME10'' then dmul t1 (fl (9 / 10)) else t1)
     in round2 t2)"

text \<open>
  \<open>createBooking\<close>. The seat query that follows the two availability queries is the
  first query with one more condition, so it is empty whenever that point is reached
  and is not repeated here. \<open>newId\<close> is the identity the store gives the document. The
  promo code is handed over under a name that is no path of the schema and is not
  stored. A document that \<open>save()\<close> refuses ends in the response 500.
\<close>

definition createBooking :: "store \<Rightarrow> bookingRequest \<Rightarrow> nat \<Rightarrow> http_error + booking" where
  "createBooking st req newId =
    (case findRoute st (reqRoute req) of
       None \<Rightarrow> Inl (HttpError 400 ''Route not found'')
     | Some routeData \<Rightarrow>
       (case findBus st (reqBookingBus req) of
          None \<Rightarrow> Inl (HttpError 400 ''Bus not found'')
        | Some busData \<Rightarrow>
            if busAvailability st (reqBookingBus req) (reqDepartureDate req) \<noteq> []
            then Inl (HttpError 400 ''Bus is not available on the selected date'')
            else if reqBookingType req = ''Round-Trip''
                    \<and> (case reqReturnDate req of
                          None \<Rightarrow> False
                        | Some r \<Rightarrow> busAvailability st (reqBookingBus req) r \<noteq> [])
            then Inl (HttpError 400 ''Bus is not available for the return date'')
            else
              let newBooking =
                    \<lparr>bookingId = newId, bookingType = reqBookingType req,
                     bookingStatus = ''Pending'', passengers = reqPassengers req,
                     bookingRoute = reqRoute req, bookingBus = reqBookingBus req,
                     departureDate = reqDepartureDate req, returnDate = reqReturnDate req,
                     totalFare = createBookingFare (baseFare routeData)
                                   (length (reqPassengers req)) (reqBookingType req)
                                   (reqPromoCode req),
                     bookingPaymentStatus = ''Pending'', discountApplied = None,
                     transactionRefundAmount = None\<rparr>
              in if validBooking newBooking then Inr newBooking
                 else Inl (HttpError 500 ''Server error while creating booking'')))"

text \<open>\<open>updateBookingStatus\<close> on the booking found by id.\<close>

definition updateBookingStatus :: "booking option \<Rightarrow> string \<Rightarrow> http_error + booking" where
  "updateBookingStatus found st =
    (if st = [] \<or> st \<notin> set [''Pending'', ''Confirmed'', ''Cancelled'', ''Completed'',
                               ''No-Show'']
     then Inl (HttpError 400
            ''Status must be one of: Pending, Confirmed, Cancelled, Completed, No-Show'')
     else case found of
       None \<Rightarrow> Inl (HttpError 404 ''Booking not found'')
     | Some b \<Rightarrow>
         if bookingStatus b = ''Cancelled'' \<and> st \<noteq> ''Cancelled''
         then Inl (HttpError 400 ''Cannot change status of a cancelled booking'')
         else if bookingStatus b = ''Completed'' \<and> st \<noteq> ''Completed''
         then Inl (HttpError 400 ''Cannot change status of a completed booking'')
         else
           let b1 = b\<lparr>bookingStatus := st\<rparr>
           in if validBooking b1 then Inr b1
              else Inl (HttpError 500 ''Server error while updating booking status''))"

text \<open>
  The refund percentage computed in \<open>cancelBooking\<close>: nothing unless the booking is
  paid or partially paid, three tiers above 24 hours, and one half for an admin at or
  below 24 hours.
\<close>

definition cancelBookingPercentage :: "string \<Rightarrow> rat \<Rightarrow> bool \<Rightarrow> rat" where
  "cancelBookingPercentage pstatus hours isAdmin =
    (if pstatus = ''Paid'' \<or> pstatus = ''Partially Paid'' then
       (if hours > 72 then 1
        else if hours > 48 then 3 / 4
        else if hours > 24 then 1 / 2
        else if isAdmin then 1 / 2
        else 0)
     else 0)"

text \<open>The fold of the booking controller: every entry of the list is added.\<close>

definition paymentsSum :: "payment list \<Rightarrow> rat" where
  "paymentsSum ps = foldl (\<lambda>sum p. dadd sum (amount p)) 0 ps"

text \<open>
  \<open>cancelBooking\<close>. The paid total it multiplies is
  \<open>booking.payments?.reduce(...) || 0\<close>; a booking loaded from the store has no
  \<open>payments\<close>, so that total is 0.
\<close>

definition cancelBooking ::
  "booking option \<Rightarrow> bool \<Rightarrow> instant \<Rightarrow> http_error + (cancellationResult \<times> booking)" where
  "cancelBooking found isAdmin now =
    (case found of
       None \<Rightarrow> Inl (HttpError 404 ''Booking not found'')
     | Some b \<Rightarrow>
         if bookingStatus b = ''Cancelled''
         then Inl (HttpError 400 ''Booking is already cancelled'')
         else if bookingStatus b = ''Completed''
         then Inl (HttpError 400 ''Cannot cancel a completed booking'')
         else if hoursToDeparture b now < 24 \<and> \<not> isAdmin
         then Inl (HttpError 400
                ''Bookings cannot be cancelled less than 24 hours before departure'')
         else
           let pct = cancelBookingPercentage (bookingPaymentStatus b)
                       (hoursToDeparture b now) isAdmin;
               paid = 0;
               refund = (if bookingPaymentStatus b = ''Paid''
                            \<or> bookingPaymentStatus b = ''Partially Paid''
                         then round2 (dmul paid pct) else 0);
               b1 = b\<lparr>bookingStatus := ''Cancelled''\<rparr>
           in if validBooking b1
              then Inr (\<lparr>refundAmount = refund, refundPercentage = pct\<rparr>, b1)
              else Inl (HttpError 500 ''Server error while cancelling booking''))"

text \<open>
  \<open>processPayment\<close> of the booking controller. The ledger is
  \<open>booking.payments || []\<close> with the new entry pushed, that is the new entry alone; it
  is a plain property of the loaded document and is not stored. The response carries the
  paid total and the remaining balance.
\<close>

record paymentDetails =
  paidTotal :: rat
  balance :: rat

definition bookingLedger :: "rat \<Rightarrow> string \<Rightarrow> instant \<Rightarrow> payment list" where
  "bookingLedger amt meth now =
    [\<lparr>amount = amt, date = now,
      paymentMethod = (if meth = [] then ''Credit Card'' else meth),
      entryStatus = ''Completed''\<rparr>]"

definition bookingProcessPayment ::
  "booking option \<Rightarrow> rat \<Rightarrow> string \<Rightarrow> instant \<Rightarrow> http_error + (paymentDetails \<times> booking)" where
  "bookingProcessPayment found amt meth now =
    (case found of
       None \<Rightarrow> Inl (HttpError 404 ''Booking not found'')
     | Some b \<Rightarrow>
         if bookingStatus b = ''Cancelled''
         then Inl (HttpError 400 ''Cannot process payment for a cancelled booking'')
         else if bookingPaymentStatus b = ''Paid''
         then Inl (HttpError 400 ''Booking is already fully paid'')
         else if amt \<le> 0
         then Inl (HttpError 400 ''Invalid payment amount'')
         else
           let ledger = bookingLedger amt meth now;
               paid = paymentsSum ledger;
               b2 = b\<lparr>bookingPaymentStatus :=
                        (if paid \<ge> totalFare b then ''Paid'' else ''Partially Paid'')\<rparr>;
               b3 = (if bookingPaymentStatus b2 = ''Paid'' \<and> bookingStatus b2 = ''Pending''
                     then b2\<lparr>bookingStatus := ''Confirmed''\<rparr> else b2)
           in if validBooking b3
              then Inr (\<lparr>paidTotal = paymentsSum ledger,
                         balance = max 0 (dsub (totalFare b3) (paymentsSum ledger))\<rparr>,
                        b3)
              else Inl (HttpError 500 ''Server error while processing payment''))"

section \<open>The fare of a booking (Booking.calculateTotalFare)\<close>

text \<open>
  The accumulator of \<open>calculateTotalFare\<close>. The loop executes
  \<open>totalFare += passengerFare\<close> with the object that \<open>calculateFare\<close> returns, and
  \<open>+\<close> with an object operand concatenates strings: the result is the text of the
  left operand followed by \<open>[object Object]\<close>, a string that is no numeric literal.
  Multiplying such a string gives \<open>NaN\<close>.
\<close>

datatype jsvalue = Num rat | NonNumericString | NaN

definition plusObject :: "jsvalue \<Rightarrow> fareObject \<Rightarrow> jsvalue" where
  "plusObject v f = NonNumericString"

definition jsTimes :: "jsvalue \<Rightarrow> rat \<Rightarrow> jsvalue" where
  "jsTimes v k = (case v of Num r \<Rightarrow> Num (dmul r k) | NonNumericString \<Rightarrow> NaN | NaN \<Rightarrow> NaN)"

definition jsRound2 :: "jsvalue \<Rightarrow> jsvalue" where
  "jsRound2 v = (case v of Num r \<Rightarrow> Num (round2 r) | NonNumericString \<Rightarrow> NaN | NaN \<Rightarrow> NaN)"

text \<open>Hour of the day and day of the week (0 is Sunday) of an instant, read in UTC.\<close>

definition getHours :: "instant \<Rightarrow> int" where
  "getHours d = (d div (1000 * 60 * 60)) mod 24"

definition getDay :: "instant \<Rightarrow> int" where
  "getDay d = (d div (1000 * 60 * 60 * 24) + 4) mod 7"

definition isPeakTimeOf :: "booking \<Rightarrow> bool" where
  "isPeakTimeOf b =
    (let departureHour = getHours (departureDate b)
     in (departureHour \<ge> 7 \<and> departureHour \<le> 9) \<or> (departureHour \<ge> 16 \<and> departureHour \<le> 19))"

definition isWeekendOf :: "booking \<Rightarrow> bool" where
  "isWeekendOf b = (let day = getDay (departureDate b) in day = 0 \<or> day = 6)"

text \<open>
  The method assigns the rounded result to \<open>totalFare\<close> and returns that field. The
  field is a Number path: the assignment of \<open>NaN\<close> is refused by the cast and the field
  keeps its value, so the method then returns the fare the booking already had.
\<close>

definition calculateTotalFare :: "store \<Rightarrow> booking \<Rightarrow> error + rat" where
  "calculateTotalFare st b =
    (case findRoute st (bookingRoute b) of
       None \<Rightarrow> Inl (Error ''Route not found'')
     | Some r \<Rightarrow>
         let t0 = foldl (\<lambda>acc p.
                    plusObject acc
                      (calculateFare r
                         \<lparr>isChild = (passengerType p = ''Child''),
                          isSenior = (passengerType p = ''Senior''),
                          isPeakTime = isPeakTimeOf b, isWeekend = isWeekendOf b,
                          isHoliday = False, isSeasonal = False\<rparr>))
                    (Num 0) (passengers b);
             t1 = (if bookingType b = ''Round-Trip'' then jsTimes t0 2 else t0);
             t2 = (case discountApplied b of
                     None \<Rightarrow> t1
                   | Some d \<Rightarrow> if d = 0 then t1 else jsTimes t1 (dsub 1 d))
         in (case jsRound2 t2 of
               Num f \<Rightarrow> Inr f
             | NonNumericString \<Rightarrow> Inr (totalFare b)
             | NaN \<Rightarrow> Inr (totalFare b)))"

section \<open>Sample data\<close>

text \<open>One day and one hour in milliseconds.\<close>

definition msPerDay :: int where "msPerDay = 1000 * 60 * 60 * 24"


definition activeBus :: busDoc where
  "activeBus = \<lparr>busId = 7, busStatus = ''Active'', dailyRate = None, perKilometer = None\<rparr>"

definition weekendRoute :: route where
  "weekendRoute = \<lparr>routeId = 3, baseFare = 100, peakTimeMultiplier = 1,
     weekendMultiplier = fl (6 / 5), holidayMultiplier = fl (6 / 5), seasonalMultiplier = 1,
     childrenDiscount = 1 / 2, seniorDiscount = fl (3 / 10)\<rparr>"

definition adult :: passenger where
  "adult = \<lparr>name = ''Ada'', age = Some 36, gender = ''Female'', passengerType = ''Adult'',
     seatNumber = ''A1''\<rparr>"

text \<open>A pending one-way booking of bus 7 that departs on day 5 (a Tuesday).\<close>

definition liveBooking :: booking where
  "liveBooking = \<lparr>bookingId = 1, bookingType = ''One-Way'', bookingStatus = ''Pending'',
     passengers = [adult], bookingRoute = 3, bookingBus = 7, departureDate = 5 * msPerDay,
     returnDate = None, totalFare = 200, bookingPaymentStatus = ''Pending'',
     discountApplied = None, transactionRefundAmount = None\<rparr>"

text \<open>A pending hiring of bus 7 under the Flexible policy, from day 10 to day 13.\<close>

definition sampleHiring :: hiring where
  "sampleHiring = \<lparr>hid = 1, status = ''Pending'', startDate = 10 * msPerDay, endDate = 13 * msPerDay,
     isRoundTrip = False, estimatedDistance = 120, baseRate = 500, rateType = ''Per Day'',
     additionalCharges = [], driverAllowance = 0, overtimeRate = 0, totalCost = 1500,
     deposit = 0, paymentStatus = ''Pending'', payments = [], bus = 7,
     cancellationPolicy = ''Flexible''\<rparr>"

definition storeWithHiring :: store where
  "storeWithHiring = \<lparr>buses = [activeBus], routes = [weekendRoute],
     bookings = [], hirings = [sampleHiring]\<rparr>"

text \<open>A hiring of bus 7 from day 11 to day 12, inside the window of \<open>sampleHiring\<close>.\<close>

definition innerHiring :: hiring where
  "innerHiring = sampleHiring\<lparr>hid := 2, startDate := 11 * msPerDay, endDate := 12 * msPerDay\<rparr>"

text \<open>
  A pending hiring of bus 7 from day 5 to day 6, the store that holds it, a request for
  a one-way seat booking on bus 7 departing at the first instant of day 5, the booking
  that request creates, and the store after it is saved.
\<close>

definition hiringOnDay5 :: hiring where
  "hiringOnDay5 = sampleHiring\<lparr>startDate := 5 * msPerDay, endDate := 6 * msPerDay\<rparr>"

definition storeWithHiringOnDay5 :: store where
  "storeWithHiringOnDay5 = \<lparr>buses = [activeBus], routes = [weekendRoute],
     bookings = [], hirings = [hiringOnDay5]\<rparr>"

definition bookingRequestOnDay5 :: bookingRequest where
  "bookingRequestOnDay5 = \<lparr>reqRoute = 3, reqBookingBus = 7, reqDepartureDate = 5 * msPerDay,
     reqReturnDate = None, reqBookingType = ''One-Way'', reqPassengers = [adult],
     reqPromoCode = []\<rparr>"

definition bookingOnDay5 :: booking where
  "bookingOnDay5 = \<lparr>bookingId = 2, bookingType = ''One-Way'', bookingStatus = ''Pending'',
     passengers = [adult], bookingRoute = 3, bookingBus = 7, departureDate = 5 * msPerDay,
     returnDate = None, totalFare = 100, bookingPaymentStatus = ''Pending'',
     discountApplied = None, transactionRefundAmount = None\<rparr>"

definition storeAfterBookingOnDay5 :: store where
  "storeAfterBookingOnDay5 = storeWithHiringOnDay5\<lparr>bookings := [bookingOnDay5]\<rparr>"

text \<open>The booking of day 5 after a payment of its whole fare of 200.\<close>

definition paidBooking :: booking where
  "paidBooking = liveBooking\<lparr>bookingStatus := ''Confirmed'', bookingPaymentStatus := ''Paid''\<rparr>"

definition noShowBooking :: booking where
  "noShowBooking = liveBooking\<lparr>bookingStatus := ''No-Show''\<rparr>"

definition cancelledBooking :: booking where
  "cancelledBooking = liveBooking\<lparr>bookingStatus := ''Cancelled''\<rparr>"

definition rejectedHiring :: hiring where
  "rejectedHiring = sampleHiring\<lparr>status := ''Rejected''\<rparr>"

text \<open>A round trip on route 3 with one adult, leaving on day 2 (a Saturday), no promo code.\<close>

definition roundTripRequest :: bookingRequest where
  "roundTripRequest = \<lparr>reqRoute = 3, reqBookingBus = 7, reqDepartureDate = 2 * msPerDay,
     reqReturnDate = Some (4 * msPerDay), reqBookingType = ''Round-Trip'',
     reqPassengers = [adult], reqPromoCode = []\<rparr>"



text \<open>The sample hiring after a payment of its whole cost of 1500.\<close>

definition paidHiring :: hiring where
  "paidHiring = sampleHiring\<lparr>status := ''Confirmed'', paymentStatus := ''Paid'',
     payments := [\<lparr>amount = 1500, date = 0, paymentMethod = ''Cash'',
                   entryStatus = ''Completed''\<rparr>]\<rparr>"

text \<open>A ledger with a completed charge, a failed charge and a completed negative entry.\<close>

definition mixedLedgerHiring :: hiring where
  "mixedLedgerHiring = sampleHiring\<lparr>payments :=
     [\<lparr>amount = 1000, date = 0, paymentMethod = ''Cash'', entryStatus = ''Completed''\<rparr>,
      \<lparr>amount = 500, date = 1, paymentMethod = ''Cash'', entryStatus = ''Failed''\<rparr>,
      \<lparr>amount = - 250, date = 2, paymentMethod = ''Other'', entryStatus = ''Completed''\<rparr>]\<rparr>"

text \<open>A pending hiring whose only ledger entry is a completed entry of -5.\<close>

definition overdrawnHiring :: hiring where
  "overdrawnHiring = sampleHiring\<lparr>payments :=
     [\<lparr>amount = - 5, date = 0, paymentMethod = ''Cash'', entryStatus = ''Completed''\<rparr>]\<rparr>"

section \<open>Rounding and ledger folds\<close>

lemma pow2_pos: "0 < pow2 e"
  by (simp add: pow2_def)

lemma roundHalfEven_nonneg: "0 \<le> m \<Longrightarrow> 0 \<le> roundHalfEven m"
  by (auto simp: roundHalfEven_def Let_def)


lemma fl_nonneg: "0 \<le> x \<Longrightarrow> 0 \<le> fl x"
  by (simp add: fl_def Let_def roundHalfEven_nonneg pow2_pos less_imp_le)




lemma completedSum_foldl:
  "foldl (\<lambda>sum p. if entryStatus p = ''Completed'' then dadd sum (amount p) else sum) a ps
     = foldl dadd a (map amount (filter (\<lambda>p. entryStatus p = ''Completed'') ps))"
  by (induction ps arbitrary: a) simp_all

lemma completedSum_filter:
  "completedSum ps
     = foldl dadd 0 (map amount (filter (\<lambda>p. entryStatus p = ''Completed'') ps))"
  by (simp add: completedSum_def completedSum_foldl)

lemma completedSum_snoc:
  "completedSum (ps @ [p])
     = (if entryStatus p = ''Completed'' then dadd (completedSum ps) (amount p)
        else completedSum ps)"
  by (simp add: completedSum_def)

section \<open>Conflict detection\<close>

text \<open>
  For well-formed windows the three cases of the \<open>createHiring\<close> query are exactly
  the inclusive overlap of the two windows.
\<close>

lemma createHiringWindowMatch_iff:
  "s1 \<le> e1 \<Longrightarrow> s2 \<le> e2 \<Longrightarrow>
   createHiringWindowMatch s1 e1 s2 e2 \<longleftrightarrow> (s1 \<le> e2 \<and> s2 \<le> e1)"
  by (auto simp: createHiringWindowMatch_def inRange_def)

text \<open>The two cases of the \<open>checkBusAvailability\<close> query imply the overlap.\<close>

lemma availabilityWindowMatch_overlap:
  "s1 \<le> e1 \<Longrightarrow> availabilityWindowMatch s1 e1 s2 e2 \<Longrightarrow> s1 \<le> e2 \<and> s2 \<le> e1"
  by (auto simp: availabilityWindowMatch_def inRange_def)

text \<open>
  No request to \<open>createHiring\<close> is answered with a saved hiring: the document it
  builds never passes the schema.
\<close>

lemma createHiring_never_saves: "isl (createHiring st req)"
  by (simp add: createHiring_def validCreatedHiring_def Let_def split: option.splits)

text \<open>
  C1. Creating a reservation whose window overlaps a live reservation of the same bus
  is to be rejected, whatever the kind of that reservation. At this input the code does
  not: bus 7 has a pending hiring from day 5 to day 6, and \<open>createBooking\<close> saves a
  seat booking on bus 7 that departs at the first instant of day 5, because its query
  reads bookings only. The model's own \<open>checkBusAvailability\<close>, asked about that
  hiring once the booking is stored, reports the booking as a conflict.
\<close>

theorem createBooking_accepts_departure_inside_live_hiring:
  "validHiring hiringOnDay5 \<and> status hiringOnDay5 = ''Pending''
   \<and> createBooking storeWithHiringOnDay5 bookingRequestOnDay5 2 = Inr bookingOnDay5
   \<and> bookingStatus bookingOnDay5 = ''Pending''
   \<and> bookingBus bookingOnDay5 = bus hiringOnDay5
   \<and> inRange (startDate hiringOnDay5) (endDate hiringOnDay5) (departureDate bookingOnDay5)
   \<and> checkBusAvailability storeAfterBookingOnDay5 hiringOnDay5 = AlreadyBooked [2]"
  by code_simp

text \<open>
  C2. The availability check is to report a conflict exactly when
  \<open>s1 \<le> e2\<close> and \<open>s2 \<le> e1\<close>, in particular when one window contains the other. At
  this input \<open>checkBusAvailability\<close> does not: the pending hiring of bus 7 runs from
  day 10 to day 13, the candidate from day 11 to day 12, the windows overlap, and the
  bus is reported available, since neither end of the existing hiring lies inside the
  candidate. The query of \<open>createHiring\<close> finds the existing hiring.
\<close>

theorem checkBusAvailability_misses_surrounding_hiring:
  "startDate sampleHiring \<le> endDate innerHiring
   \<and> startDate innerHiring \<le> endDate sampleHiring
   \<and> status sampleHiring = ''Pending'' \<and> bus sampleHiring = bus innerHiring
   \<and> checkBusAvailability storeWithHiring innerHiring = Available 7
   \<and> existingHirings storeWithHiring 7 (startDate innerHiring) (endDate innerHiring)
       = [sampleHiring]"
  by code_simp

section \<open>Refund tiers of a seat booking\<close>






section \<open>The fare of a seat booking\<close>

text \<open>
  As soon as a booking has a passenger, the accumulator of \<open>calculateTotalFare\<close> is
  a string, the rounded result is \<open>NaN\<close>, and the method returns the fare the
  booking already had: the loop adds the fare object, not its \<open>total\<close>.
\<close>

lemma foldl_plusObject:
  "ps \<noteq> [] \<Longrightarrow> foldl (\<lambda>acc p. plusObject acc (g p)) a ps = NonNumericString"
  by (cases ps rule: rev_cases) (simp_all add: plusObject_def)

lemma calculateTotalFare_keeps_fare:
  assumes "findRoute st (bookingRoute b) = Some r" "passengers b \<noteq> []"
  shows "calculateTotalFare st b = Inr (totalFare b)"
  using assms
  by (simp add: calculateTotalFare_def Let_def foldl_plusObject jsTimes_def jsRound2_def
      split: option.splits)

text \<open>
  The products of \<open>createBooking\<close> are products of doubles: a base fare of 9.35 with
  the promo code gives 841.4999999999999 hundredths and is stored as 8.41.
\<close>

lemma createBookingFare_promo_tie:
  "createBookingFare (fl (935 / 100)) 1 ''One-Way'' ''WELCOME10'' = fl (841 / 100)"
  by code_simp

text \<open>
  The claim of C4 as stated, a round-trip total of twice the one-way sum and 120 and
  240 in the weekend scenario, fails in \<open>createBooking\<close>: on route 3 (base fare 100,
  weekend multiplier 1.2), one adult, a Saturday departure and no promo code, the
  one-way fare is 100 and the round-trip fare is 180.
\<close>

theorem createBooking_round_trip_counterexample:
  "getDay (reqDepartureDate roundTripRequest) = 6
   \<and> baseFare weekendRoute = 100 \<and> weekendMultiplier weekendRoute = fl (6 / 5)
   \<and> map_sum id totalFare (createBooking storeWithHiring roundTripRequest 2) = Inr 180
   \<and> map_sum id totalFare
        (createBooking storeWithHiring (roundTripRequest\<lparr>reqBookingType := ''One-Way''\<rparr>) 2)
      = Inr 100"
  by code_simp

text \<open>
  C4 (amended). The fare \<open>createBooking\<close> stores is the route's base fare times the
  number of passengers, times 1.8 for a round trip, and only then times 0.9 for the
  promo code \<open>WELCOME10\<close>, each product rounded to a double, and the result rounded to
  cents at the end; no peak, weekend or passenger type factor enters it. With base fare
  100, one passenger and no promo code the one-way total is 100 and the round-trip
  total is 180.
\<close>

theorem createBooking_fare:
  assumes "createBooking st req i = Inr b" "findRoute st (reqRoute req) = Some r"
  shows "totalFare b =
     (let oneWay = dmul (baseFare r) (of_nat (length (reqPassengers req)));
          trip = (if reqBookingType req = ''Round-Trip'' then dmul oneWay (fl (18 / 10))
                  else oneWay);
          discounted = (if reqPromoCode req = ''WELCOME10'' then dmul trip (fl (9 / 10))
                        else trip)
      in round2 discounted)"
proof -
  from assms have "totalFare b = createBookingFare (baseFare r) (length (reqPassengers req))
      (reqBookingType req) (reqPromoCode req)"
    by (auto simp: createBooking_def Let_def split: option.splits if_splits)
  then show ?thesis
    by (simp add: createBookingFare_def Let_def)
qed

theorem createBooking_fare_witness:
  "createBooking storeWithHiring roundTripRequest 2 =
     Inr \<lparr>bookingId = 2, bookingType = ''Round-Trip'', bookingStatus = ''Pending'',
          passengers = [adult], bookingRoute = 3, bookingBus = 7,
          departureDate = 2 * msPerDay, returnDate = Some (4 * msPerDay), totalFare = 180,
          bookingPaymentStatus = ''Pending'', discountApplied = None,
          transactionRefundAmount = None\<rparr>
   \<and> findRoute storeWithHiring (reqRoute roundTripRequest) = Some weekendRoute
   \<and> round2 (dmul (dmul (baseFare weekendRoute) (of_nat (length [adult]))) (fl (18 / 10)))
       = 180"
proof -
  have created: "createBooking storeWithHiring roundTripRequest 2 =
     Inr \<lparr>bookingId = 2, bookingType = ''Round-Trip'', bookingStatus = ''Pending'',
          passengers = [adult], bookingRoute = 3, bookingBus = 7,
          departureDate = 2 * msPerDay, returnDate = Some (4 * msPerDay), totalFare = 180,
          bookingPaymentStatus = ''Pending'', discountApplied = None,
          transactionRefundAmount = None\<rparr>"
    by code_simp
  have found: "findRoute storeWithHiring (reqRoute roundTripRequest) = Some weekendRoute"
    by code_simp
  have request: "reqPromoCode roundTripRequest \<noteq> ''WELCOME10''"
    "reqBookingType roundTripRequest = ''Round-Trip''"
    "reqPassengers roundTripRequest = [adult]"
    by (simp_all add: roundTripRequest_def)
  from createBooking_fare [OF created found] created found request
  show ?thesis by (simp add: Let_def)
qed

section \<open>The payment ledger\<close>

text \<open>
  C5. The paid total of a hiring is the sum, taken in ledger order by the addition of
  doubles, of the signed amounts of exactly the entries with status Completed, and its
  remaining balance is \<open>max 0 (total - paid)\<close>, never negative. The booking
  controller adds every entry of the ledger it builds; that ledger is the one Completed
  entry of the payment, so the total and the balance in its response are the same
  quantities.
\<close>

theorem ledger_totals:
  "totalPaid h
     = foldl dadd 0 (map amount (filter (\<lambda>p. entryStatus p = ''Completed'') (payments h)))
   \<and> remainingBalance h = max 0 (dsub (totalCost h) (totalPaid h))
   \<and> 0 \<le> remainingBalance h
   \<and> (bookingProcessPayment (Some b) amt meth now = Inr (d, b')
      \<longrightarrow> paidTotal d = foldl dadd 0 (map amount
             (filter (\<lambda>p. entryStatus p = ''Completed'') (bookingLedger amt meth now)))
        \<and> balance d = max 0 (dsub (totalFare b') (paidTotal d))
        \<and> 0 \<le> balance d)"
proof -
  have hiringPart: "totalPaid h
      = foldl dadd 0 (map amount (filter (\<lambda>p. entryStatus p = ''Completed'') (payments h)))"
    by (simp add: totalPaid_def completedSum_filter)
  have balancePart: "remainingBalance h = max 0 (dsub (totalCost h) (totalPaid h))"
    "0 \<le> remainingBalance h"
    by (simp_all add: remainingBalance_def)
  have bookingPart: "paidTotal d = foldl dadd 0 (map amount
             (filter (\<lambda>p. entryStatus p = ''Completed'') (bookingLedger amt meth now)))
        \<and> balance d = max 0 (dsub (totalFare b') (paidTotal d))
        \<and> 0 \<le> balance d"
    if paid: "bookingProcessPayment (Some b) amt meth now = Inr (d, b')"
    using paid
    by (auto simp: bookingProcessPayment_def Let_def paymentsSum_def bookingLedger_def
        split: if_splits)
  from hiringPart balancePart bookingPart show ?thesis by blast
qed

text \<open>
  A hiring ledger with a failed entry and a negative entry (1000 - 250 paid, 750 left of
  1500), and the payment of the whole fare of 200 on the pending booking.
\<close>

theorem ledger_totals_witness:
  "totalPaid mixedLedgerHiring = 750
   \<and> remainingBalance mixedLedgerHiring = 750
   \<and> bookingProcessPayment (Some liveBooking) 200 ''Cash'' 9
       = Inr (\<lparr>paidTotal = 200, balance = 0\<rparr>, paidBooking)
   \<and> foldl dadd 0 (map amount
        (filter (\<lambda>p. entryStatus p = ''Completed'') (bookingLedger 200 ''Cash'' 9))) = 200"
proof -
  have ledger: "foldl dadd 0 (map amount
      (filter (\<lambda>p. entryStatus p = ''Completed'') (payments mixedLedgerHiring))) = 750"
    "max 0 (dsub (totalCost mixedLedgerHiring) 750) = 750"
    by code_simp+
  have paid: "bookingProcessPayment (Some liveBooking) 200 ''Cash'' 9
       = Inr (\<lparr>paidTotal = 200, balance = 0\<rparr>, paidBooking)"
    by code_simp
  from ledger_totals [where h = mixedLedgerHiring and b = liveBooking
      and amt = 200 and meth = "''Cash''" and now = 9,
      of "\<lparr>paidTotal = 200, balance = 0\<rparr>" paidBooking]
    ledger paid
  show ?thesis by simp
qed

section \<open>Status changes\<close>

text \<open>
  The claim of C6 as stated, that no status change is accepted in a terminal state,
  fails in \<open>updateBookingStatus\<close>: a booking in No-Show is set to Confirmed.
\<close>

theorem updateBookingStatus_no_show_counterexample:
  "bookingStatus noShowBooking = ''No-Show''
   \<and> updateBookingStatus (Some noShowBooking) ''Confirmed''
       = Inr (noShowBooking\<lparr>bookingStatus := ''Confirmed''\<rparr>)"
  by code_simp

text \<open>
  C6 (amended). For a seat booking in Cancelled or Completed, \<open>updateBookingStatus\<close>
  rejects every request for another status and \<open>cancelBooking\<close> rejects the
  cancellation, so the status stays as it is (a request for the status the booking
  already has is accepted and leaves the status unchanged). For a hiring in Cancelled,
  Completed or Rejected, \<open>updateHiringStatus\<close> and \<open>cancelHiring\<close> reject every
  request.
\<close>

theorem guarded_states_stay:
  "(bookingStatus b \<in> {''Cancelled'', ''Completed''} \<longrightarrow>
      (st \<noteq> bookingStatus b \<longrightarrow> isl (updateBookingStatus (Some b) st))
      \<and> (\<forall>b'. updateBookingStatus (Some b) st = Inr b' \<longrightarrow> bookingStatus b' = bookingStatus b)
      \<and> isl (cancelBooking (Some b) isAdmin now))
   \<and> (status h \<in> {''Cancelled'', ''Completed'', ''Rejected''} \<longrightarrow>
      isl (updateHiringStatus (Some h) st now) \<and> isl (cancelHiring (Some h) isAdmin now))"
  by (auto simp: updateBookingStatus_def updateHiringStatus_def cancelBooking_def
      cancelHiring_def Let_def split: if_splits)

theorem guarded_states_stay_witness:
  "bookingStatus cancelledBooking = ''Cancelled''
   \<and> isl (updateBookingStatus (Some cancelledBooking) ''Confirmed'')
   \<and> updateBookingStatus (Some cancelledBooking) ''Cancelled'' = Inr cancelledBooking
   \<and> isl (cancelBooking (Some cancelledBooking) True 0)
   \<and> status rejectedHiring = ''Rejected''
   \<and> isl (updateHiringStatus (Some rejectedHiring) ''Confirmed'' 0)
   \<and> isl (cancelHiring (Some rejectedHiring) True 0)"
proof -
  have states: "bookingStatus cancelledBooking = ''Cancelled''"
    "status rejectedHiring = ''Rejected''"
    by code_simp+
  have same: "updateBookingStatus (Some cancelledBooking) ''Cancelled'' = Inr cancelledBooking"
    by code_simp
  from guarded_states_stay [where b = cancelledBooking and h = rejectedHiring
      and st = "''Confirmed''" and isAdmin = True and now = 0] states same
  show ?thesis by simp
qed

section \<open>The cost of a hiring\<close>

text \<open>
  The claim of C7 as stated, that an unknown rate basis fails, is false: with the rate
  type \<open>Per Week\<close>, a base rate of 500 and three days, \<open>calculateTotalCost\<close> returns
  1500, the cost per day.
\<close>

theorem unknown_basis_priced_per_day_counterexample:
  "rateType (sampleHiring\<lparr>rateType := ''Per Week''\<rparr>)
      \<notin> {''Per Day'', ''Per Hour'', ''Per Kilometer'', ''Fixed''}
   \<and> fst (calculateTotalCost (sampleHiring\<lparr>rateType := ''Per Week''\<rparr>)) = 1500
   \<and> fst (calculateTotalCost sampleHiring) = 1500"
  by code_simp

text \<open>
  C7 (amended). Computing a hiring's total cost with a rate basis outside Per Day,
  Per Hour, Per Kilometer and Fixed does not fail: the \<open>default\<close> branch of the
  \<open>switch\<close> prices it per day, so the result is the cost of the same hiring with
  the basis Per Day.
\<close>

theorem calculateTotalCost_unknown_basis:
  "rateType h \<notin> {''Per Day'', ''Per Hour'', ''Per Kilometer'', ''Fixed''} \<Longrightarrow>
   calculateTotalCost h
     = (fst (calculateTotalCost (h\<lparr>rateType := ''Per Day''\<rparr>)),
        h\<lparr>totalCost := fst (calculateTotalCost (h\<lparr>rateType := ''Per Day''\<rparr>))\<rparr>)"
  by (simp add: calculateTotalCost_def baseCost_def Let_def)

theorem calculateTotalCost_unknown_basis_witness:
  "rateType (sampleHiring\<lparr>rateType := ''Per Week''\<rparr>) = ''Per Week''
   \<and> calculateTotalCost (sampleHiring\<lparr>rateType := ''Per Week''\<rparr>)
       = (1500, sampleHiring\<lparr>rateType := ''Per Week'', totalCost := 1500\<rparr>)"
proof -
  have unknown: "rateType (sampleHiring\<lparr>rateType := ''Per Week''\<rparr>)
      \<notin> {''Per Day'', ''Per Hour'', ''Per Kilometer'', ''Fixed''}"
    by simp
  have perDay: "fst (calculateTotalCost (sampleHiring\<lparr>rateType := ''Per Day''\<rparr>)) = 1500"
    by code_simp
  from calculateTotalCost_unknown_basis [OF unknown] perDay
  show ?thesis by simp
qed

section \<open>Who cancels\<close>

text \<open>
  The claim of C8 as stated, the same percentage for admin and owner, fails in
  \<open>cancelBooking\<close>: exactly 24 hours before departure both may cancel the paid
  booking, the admin is answered with one half and the owner with nothing.
\<close>

theorem cancelBooking_actor_counterexample:
  "hoursToDeparture paidBooking (4 * msPerDay) = 24
   \<and> cancelBooking (Some paidBooking) True (4 * msPerDay)
       = Inr (\<lparr>refundAmount = 0, refundPercentage = 1 / 2\<rparr>,
              paidBooking\<lparr>bookingStatus := ''Cancelled''\<rparr>)
   \<and> cancelBooking (Some paidBooking) False (4 * msPerDay)
       = Inr (\<lparr>refundAmount = 0, refundPercentage = 0\<rparr>,
              paidBooking\<lparr>bookingStatus := ''Cancelled''\<rparr>)"
  by code_simp

text \<open>
  C8 (amended). For a hiring, whenever \<open>cancelHiring\<close> answers both an admin and the
  owner with a cancellation at the same instant, both get the same refund percentage
  and amount. For a seat booking more than 24 hours before departure, \<open>cancelBooking\<close>
  answers the admin and the owner alike. At 24 hours or less the percentage of
  \<open>cancelBooking\<close> depends on the actor.
\<close>

theorem refund_independent_of_actor:
  "(cancelHiring (Some h) True now = Inr (r1, h1) \<and> cancelHiring (Some h) False now = Inr (r2, h2)
      \<longrightarrow> refundPercentage r1 = refundPercentage r2 \<and> refundAmount r1 = refundAmount r2)
   \<and> (hoursToDeparture b now > 24
      \<longrightarrow> cancelBooking (Some b) True now = cancelBooking (Some b) False now)"
  by (auto simp: cancelHiring_def cancelBooking_def cancelBookingPercentage_def Let_def
      split: if_splits prod.splits)

text \<open>
  The pending hiring without payments, cancelled nine days ahead, and the paid booking,
  cancelled four days ahead.
\<close>

theorem refund_independent_of_actor_witness:
  "cancelHiring (Some sampleHiring) True msPerDay
       = Inr (\<lparr>refundAmount = 0, refundPercentage = 1\<rparr>, sampleHiring\<lparr>status := ''Cancelled''\<rparr>)
   \<and> cancelHiring (Some sampleHiring) False msPerDay
       = Inr (\<lparr>refundAmount = 0, refundPercentage = 1\<rparr>, sampleHiring\<lparr>status := ''Cancelled''\<rparr>)
   \<and> hoursToDeparture paidBooking msPerDay = 96
   \<and> cancelBooking (Some paidBooking) True msPerDay
       = Inr (\<lparr>refundAmount = 0, refundPercentage = 1\<rparr>,
              paidBooking\<lparr>bookingStatus := ''Cancelled''\<rparr>)
   \<and> cancelBooking (Some paidBooking) False msPerDay
       = Inr (\<lparr>refundAmount = 0, refundPercentage = 1\<rparr>,
              paidBooking\<lparr>bookingStatus := ''Cancelled''\<rparr>)"
proof -
  have admin: "cancelHiring (Some sampleHiring) True msPerDay
       = Inr (\<lparr>refundAmount = 0, refundPercentage = 1\<rparr>, sampleHiring\<lparr>status := ''Cancelled''\<rparr>)"
    by code_simp
  have owner: "cancelHiring (Some sampleHiring) False msPerDay
       = Inr (\<lparr>refundAmount = 0, refundPercentage = 1\<rparr>, sampleHiring\<lparr>status := ''Cancelled''\<rparr>)"
    by code_simp
  have hours: "hoursToDeparture paidBooking msPerDay = 96"
    by code_simp
  have byAdmin: "cancelBooking (Some paidBooking) True msPerDay
       = Inr (\<lparr>refundAmount = 0, refundPercentage = 1\<rparr>,
              paidBooking\<lparr>bookingStatus := ''Cancelled''\<rparr>)"
    by code_simp
  from refund_independent_of_actor [where h = sampleHiring and now = msPerDay
      and b = paidBooking,
      of "\<lparr>refundAmount = 0, refundPercentage = 1\<rparr>" "sampleHiring\<lparr>status := ''Cancelled''\<rparr>"
         "\<lparr>refundAmount = 0, refundPercentage = 1\<rparr>" "sampleHiring\<lparr>status := ''Cancelled''\<rparr>"]
    admin owner hours byAdmin
  show ?thesis by simp
qed

section \<open>Payment followed by a full refund\<close>

text \<open>
  The refund entry of \<open>handleCancellation\<close> carries the payment method \<open>Refund\<close>,
  which the schema does not list: a hiring with a positive refund is refused by
  \<open>save()\<close>, and \<open>cancelHiring\<close> answers 500.
\<close>

lemma cancelHiring_refund_not_saved:
  "cancelHiring (Some paidHiring) True msPerDay = Inl (HttpError 500 ''Error processing cancellation'')"
  by code_simp




section \<open>Confirmation by payment\<close>

text \<open>
  The claim of C10 as stated, that any positive payment confirms a pending hiring with
  a deposit of 0, fails when the completed entries of the ledger sum below 0: with one
  completed entry of -5, a payment of 1 is saved and the hiring stays Pending.
\<close>

theorem payment_on_overdrawn_ledger_counterexample:
  "status overdrawnHiring = ''Pending'' \<and> deposit overdrawnHiring = 0
   \<and> totalPaid overdrawnHiring = - 5
   \<and> processPayment overdrawnHiring 1 ''Cash'' 9
       = Inr (overdrawnHiring\<lparr>payments := payments overdrawnHiring @
                [\<lparr>amount = 1, date = 9, paymentMethod = ''Cash'',
                  entryStatus = ''Completed''\<rparr>]\<rparr>)
   \<and> status (overdrawnHiring\<lparr>payments := payments overdrawnHiring @
                [\<lparr>amount = 1, date = 9, paymentMethod = ''Cash'',
                  entryStatus = ''Completed''\<rparr>]\<rparr>) = ''Pending''"
  by code_simp

text \<open>
  C10 (amended). A hiring's deposit defaults to 0 and \<open>processPayment\<close> confirms a
  pending hiring whose paid total reaches the deposit. So for a stored hiring in status
  Pending with a deposit of 0 whose completed ledger entries do not sum below 0, every
  payment of a positive amount by a method of the schema's list is accepted and leaves
  the hiring Confirmed, however small the amount is against the total cost.
\<close>

theorem any_payment_confirms_pending_hiring:
  assumes "validHiring h" "status h = ''Pending''" "deposit h = 0" "0 < amt"
    "0 \<le> totalPaid h"
    "meth \<in> set [''Credit Card'', ''Debit Card'', ''Bank Transfer'', ''Cash'',
                  ''Mobile Money'', ''Other'']"
  shows "\<exists>h'. processPayment h amt meth now = Inr h' \<and> status h' = ''Confirmed''"
proof -
  have nonempty: "meth \<noteq> []"
    using assms(6) by auto
  have reached: "0 \<le> dadd (completedSum (payments h)) amt"
    using assms(4) assms(5) by (simp add: dadd_def totalPaid_def fl_nonneg)
  show ?thesis
    using assms(1) assms(2) assms(3) assms(4) assms(6) nonempty reached
    by (simp add: processPayment_def Let_def completedSum_snoc validHiring_def
        validPayment_def)
qed

text \<open>A payment of 1 in cash against a total cost of 1500.\<close>

theorem any_payment_confirms_pending_hiring_witness:
  "status sampleHiring = ''Pending'' \<and> deposit sampleHiring = 0
   \<and> totalPaid sampleHiring = 0 \<and> totalCost sampleHiring = 1500
   \<and> (\<exists>h'. processPayment sampleHiring 1 ''Cash'' 0 = Inr h' \<and> status h' = ''Confirmed'')"
proof -
  have stored: "validHiring sampleHiring"
    by code_simp
  have state: "status sampleHiring = ''Pending''" "deposit sampleHiring = 0"
    "0 \<le> totalPaid sampleHiring" "totalPaid sampleHiring = 0" "totalCost sampleHiring = 1500"
    by (simp_all add: sampleHiring_def totalPaid_def completedSum_def)
  have positive: "(0::rat) < 1" by simp
  have cash: "''Cash'' \<in> set [''Credit Card'', ''Debit Card'', ''Bank Transfer'', ''Cash'',
                  ''Mobile Money'', ''Other'']"
    by simp
  from any_payment_confirms_pending_hiring [OF stored state(1) state(2) positive state(3) cash,
      of 0] state
  show ?thesis by simp
qed

end
